theory Spec2Isabelle
  imports Complex_Main "HOL-Library.AList"
begin

section \<open>Values, errors and the plugin directory\<close>

text \<open>
  The development embeds \<^verbatim>\<open>pagermaid/common/plugin.py\<close>.

  A version is a Python \<^verbatim>\<open>float\<close>; the code only tests it for truthiness (non-zero),
  compares it with \<^verbatim>\<open>== 0.0\<close> and orders two of them with \<^verbatim>\<open><\<close>, so a version is
  modelled as a real number (the finite floats; not-a-number and the infinities are left
  out). \<^verbatim>\<open>Optional[float]\<close> is \<^typ>\<open>real option\<close>.

  A version map (\<^verbatim>\<open>version_map\<close>, \<^verbatim>\<open>remote_version_map\<close>) is a Python dict from plugin
  names to \<^verbatim>\<open>Optional[float]\<close>: \<open>m k = None\<close> says that the key is missing,
  \<open>m k = Some None\<close> that the key is stored with the value \<^verbatim>\<open>None\<close> (JSON \<^verbatim>\<open>null\<close>).
\<close>

type_synonym ledger = "string \<rightharpoonup> real option"

text \<open>The exceptions that the modelled calls can raise.\<close>

datatype py_error =
    FileNotFoundError
  | IsADirectoryError
  | NotADirectoryError
  | OSError
  | ValueError
  | JSONDecodeError
  | TransportError

text \<open>
  The content of a file is either raw bytes (a downloaded plugin) or the JSON document that
  \<^verbatim>\<open>json.dump\<close> writes for a version map; the document is identified with the map it
  encodes, so that \<^verbatim>\<open>json.load\<close> of what \<^verbatim>\<open>json.dump\<close> wrote gives the map back.
\<close>

datatype content = Bytes string | Json ledger

text \<open>
  An entry of the directory \<^verbatim>\<open>plugins\<close> is a regular file or a directory (the flag says
  whether the directory is empty, which decides whether it may be replaced by a rename).
  The directory is an association list from file names to entries: its order is the order
  in which \<^verbatim>\<open>os.listdir\<close> enumerates it, and the first entry of a name is the one that
  counts. Every path of the program is \<^verbatim>\<open>plugins_path / file_name\<close>, so a path is
  represented by its file name. A string is a sequence of bytes, and plugin names are
  file-name stems: a name with a path separator would leave the plugin directory, which the
  association list does not describe, so the statement that
  \<^verbatim>\<open>remove\<close> succeeds is made for names without a separator. Permissions and input/output failures are not
  part of the state.
\<close>

datatype node = File content | Dir bool

type_synonym fs = "(string \<times> node) list"

definition os_path_exists :: "string \<Rightarrow> fs \<Rightarrow> bool" where
  "os_path_exists path fs = (map_of fs path \<noteq> None)"

definition os_listdir :: "fs \<Rightarrow> string list" where
  "os_listdir fs = map fst fs"

text \<open>
  The errors that depend on the file name alone: Python refuses a path with a NUL byte with
  \<^verbatim>\<open>ValueError\<close> before any system call, and the system refuses a file name of more than
  \<^verbatim>\<open>NAME_MAX\<close> bytes with \<^verbatim>\<open>OSError\<close> (\<^verbatim>\<open>ENAMETOOLONG\<close>).
\<close>

definition NAME_MAX :: nat where
  "NAME_MAX = 255"

definition name_error :: "string \<Rightarrow> py_error option" where
  "name_error path =
     (if CHR 0x00 \<in> set path then Some ValueError
      else if NAME_MAX < length path then Some OSError
      else None)"

text \<open>
  \<^verbatim>\<open>os.remove\<close> (POSIX \<^verbatim>\<open>unlink\<close>). The errors of the name are modelled for this call
  only: \<^verbatim>\<open>enable\<close> and \<^verbatim>\<open>disable\<close> catch those of \<^verbatim>\<open>os.rename\<close> together with all
  others, and the files that the program opens have a constant name or a name that
  \<^verbatim>\<open>os.remove\<close> has accepted just before. In the model a rename to a name over the limit
  succeeds, where the system refuses it and the code returns false: this is \<^verbatim>\<open>disable\<close>
  for a plugin whose active file name is within the limit and whose disabled file name is
  not. Where a statement below says that \<^verbatim>\<open>disable\<close> succeeds, the disabled file has
  existed before, so its name is within the limit.
\<close>

definition os_remove :: "string \<Rightarrow> fs \<Rightarrow> py_error + fs" where
  "os_remove path fs =
     (case name_error path of
        Some e \<Rightarrow> Inl e
      | None \<Rightarrow>
          (case map_of fs path of
             None \<Rightarrow> Inl FileNotFoundError
           | Some (Dir _) \<Rightarrow> Inl IsADirectoryError
           | Some (File _) \<Rightarrow> Inr (AList.delete path fs)))"

text \<open>\<^verbatim>\<open>os.rename\<close> (POSIX \<^verbatim>\<open>rename\<close>: an existing regular file at the target is replaced).\<close>

definition os_rename :: "string \<Rightarrow> string \<Rightarrow> fs \<Rightarrow> py_error + fs" where
  "os_rename src dst fs =
     (case map_of fs src of
        None \<Rightarrow> Inl FileNotFoundError
      | Some (File c) \<Rightarrow>
          (case map_of fs dst of
             Some (Dir _) \<Rightarrow> Inl IsADirectoryError
           | _ \<Rightarrow> Inr (AList.update dst (File c) (AList.delete src fs)))
      | Some (Dir e) \<Rightarrow>
          (case map_of fs dst of
             None \<Rightarrow> Inr (AList.update dst (Dir e) (AList.delete src fs))
           | Some (File _) \<Rightarrow> Inl NotADirectoryError
           | Some (Dir e') \<Rightarrow>
               if e' then Inr (AList.update dst (Dir e) (AList.delete src fs))
               else Inl OSError))"

text \<open>\<^verbatim>\<open>open(path, 'w')\<close> / \<^verbatim>\<open>open(path, 'wb')\<close> followed by one write of the whole content.\<close>

definition open_write :: "string \<Rightarrow> content \<Rightarrow> fs \<Rightarrow> py_error + fs" where
  "open_write path c fs =
     (case map_of fs path of
        Some (Dir _) \<Rightarrow> Inl IsADirectoryError
      | _ \<Rightarrow> Inr (AList.update path (File c) fs))"

text \<open>\<^verbatim>\<open>open(path, 'r')\<close> followed by reading the whole content.\<close>

definition open_read :: "string \<Rightarrow> fs \<Rightarrow> py_error + content" where
  "open_read path fs =
     (case map_of fs path of
        None \<Rightarrow> Inl FileNotFoundError
      | Some (Dir _) \<Rightarrow> Inl IsADirectoryError
      | Some (File c) \<Rightarrow> Inr c)"

definition json_load :: "content \<Rightarrow> py_error + ledger" where
  "json_load c = (case c of Json d \<Rightarrow> Inr d | Bytes _ \<Rightarrow> Inl JSONDecodeError)"

definition json_dump :: "ledger \<Rightarrow> content" where
  "json_dump d = Json d"

text \<open>\<^verbatim>\<open>with contextlib.suppress(FileNotFoundError): body\<close>, run in the state \<open>fs\<close>.\<close>

definition suppress_FileNotFoundError :: "fs \<Rightarrow> py_error + fs \<Rightarrow> py_error + fs" where
  "suppress_FileNotFoundError fs body =
     (case body of
        Inl e \<Rightarrow> if e = FileNotFoundError then Inr fs else Inl e
      | Inr fs' \<Rightarrow> Inr fs')"

text \<open>Python truthiness of an \<^verbatim>\<open>Optional[float]\<close>: \<^verbatim>\<open>None\<close> and zero are falsy.\<close>

definition truthy :: "real option \<Rightarrow> bool" where
  "truthy v = (case v of None \<Rightarrow> False | Some d \<Rightarrow> d \<noteq> 0)"

text \<open>\<^verbatim>\<open>d.get(k)\<close>: \<^verbatim>\<open>None\<close> for a missing key, the stored value otherwise.\<close>

definition dict_get :: "ledger \<Rightarrow> string \<Rightarrow> real option" where
  "dict_get d k = (case d k of None \<Rightarrow> None | Some v \<Rightarrow> v)"

text \<open>\<^verbatim>\<open>s.endswith(suffix)\<close> and the slice \<^verbatim>\<open>s[:-k]\<close> for \<open>k > 0\<close>.\<close>

definition endswith :: "string \<Rightarrow> string \<Rightarrow> bool" where
  "endswith s suf = (length suf \<le> length s \<and> drop (length s - length suf) s = suf)"

definition drop_last :: "nat \<Rightarrow> string \<Rightarrow> string" where
  "drop_last k s = take (length s - k) s"

section \<open>Plugin records\<close>

record LocalPlugin =
  name :: string
  status :: bool
  installed :: bool
  version :: "real option"

text \<open>
  \<^verbatim>\<open>RemotePlugin(LocalPlugin)\<close>; the fields \<^verbatim>\<open>section\<close> and \<^verbatim>\<open>size\<close> are renamed, since
  these names are taken in Isabelle.
\<close>

record RemotePlugin = LocalPlugin +
  plugin_section :: string
  maintainer :: string
  plugin_size :: string
  supported :: bool
  des :: string

definition normal_path :: "'a LocalPlugin_scheme \<Rightarrow> string" where
  "normal_path p = name p @ ''.py''"

definition disabled_path :: "'a LocalPlugin_scheme \<Rightarrow> string" where
  "disabled_path p = name p @ ''.py.disabled''"

text \<open>\<^verbatim>\<open>LocalPlugin.remove\<close>: an exception other than \<^verbatim>\<open>FileNotFoundError\<close> propagates.\<close>

definition remove :: "'a LocalPlugin_scheme \<Rightarrow> fs \<Rightarrow> py_error + fs" where
  "remove p fs =
     (case suppress_FileNotFoundError fs (os_remove (normal_path p) fs) of
        Inl e \<Rightarrow> Inl e
      | Inr fs1 \<Rightarrow> suppress_FileNotFoundError fs1 (os_remove (disabled_path p) fs1))"

text \<open>
  \<^verbatim>\<open>LocalPlugin.enable\<close> and \<^verbatim>\<open>LocalPlugin.disable\<close>: \<^verbatim>\<open>except Exception\<close> catches every
  error of the rename. The result type leaves room for a raised exception, so that
  "does not raise" is a statement about the function.
\<close>

definition enable :: "'a LocalPlugin_scheme \<Rightarrow> fs \<Rightarrow> py_error + (bool \<times> fs)" where
  "enable p fs =
     (case os_rename (disabled_path p) (normal_path p) fs of
        Inr fs' \<Rightarrow> Inr (True, fs')
      | Inl e \<Rightarrow> Inr (False, fs))"

definition disable :: "'a LocalPlugin_scheme \<Rightarrow> fs \<Rightarrow> py_error + (bool \<times> fs)" where
  "disable p fs =
     (case os_rename (normal_path p) (disabled_path p) fs of
        Inr fs' \<Rightarrow> Inr (True, fs')
      | Inl e \<Rightarrow> Inr (False, fs))"

section \<open>The network\<close>

text \<open>
  \<^verbatim>\<open>Config.GIT_SOURCE\<close> and \<^verbatim>\<open>client.get\<close> are defined outside the embedded file; they are
  parameters. A request either raises or gives a response.
\<close>

record response =
  status_code :: int
  resp_text :: string

record env =
  GIT_SOURCE :: string
  client_get :: "string \<Rightarrow> py_error + response"

text \<open>\<^verbatim>\<open>RemotePlugin.install\<close>.\<close>

definition install :: "env \<Rightarrow> 'a LocalPlugin_scheme \<Rightarrow> fs \<Rightarrow> py_error + (bool \<times> fs)" where
  "install ev p fs =
     (case client_get ev (GIT_SOURCE ev @ name p @ ''/main.py'') of
        Inl e \<Rightarrow> Inl e
      | Inr html \<Rightarrow>
          if status_code html = 200 then
            (case remove p fs of
               Inl e \<Rightarrow> Inl e
             | Inr fs1 \<Rightarrow>
                 (case open_write (name p @ ''.py'') (Bytes (resp_text html)) fs1 of
                    Inl e \<Rightarrow> Inl e
                  | Inr fs2 \<Rightarrow> Inr (True, fs2)))
          else Inr (False, fs))"

section \<open>The plugin manager\<close>

record PluginManager =
  version_map :: ledger
  remote_version_map :: ledger
  plugins :: "LocalPlugin list"
  remote_plugins :: "RemotePlugin list"

definition load_local_version_map :: "fs \<Rightarrow> PluginManager \<Rightarrow> py_error + PluginManager" where
  "load_local_version_map fs m =
     (if \<not> os_path_exists ''version.json'' fs then Inr m
      else
        (case open_read ''version.json'' fs of
           Inl e \<Rightarrow> Inl e
         | Inr c \<Rightarrow>
             (case json_load c of
                Inl e \<Rightarrow> Inl e
              | Inr d \<Rightarrow> Inr (m\<lparr>version_map := d\<rparr>))))"

definition save_local_version_map :: "fs \<Rightarrow> PluginManager \<Rightarrow> py_error + fs" where
  "save_local_version_map fs m = open_write ''version.json'' (json_dump (version_map m)) fs"

text \<open>\<^verbatim>\<open>float(data) if data else None\<close>.\<close>

definition get_local_version :: "PluginManager \<Rightarrow> string \<Rightarrow> real option" where
  "get_local_version m n =
     (let data = dict_get (version_map m) n in if truthy data then data else None)"

definition set_local_version ::
  "string \<Rightarrow> real option \<Rightarrow> fs \<Rightarrow> PluginManager \<Rightarrow> py_error + (fs \<times> PluginManager)" where
  "set_local_version n v fs m =
     (let m1 = m\<lparr>version_map := (version_map m)(n \<mapsto> v)\<rparr> in
      case save_local_version_map fs m1 of
        Inl e \<Rightarrow> Inl e
      | Inr fs1 \<Rightarrow> Inr (fs1, m1))"

definition get_plugin_install_status :: "PluginManager \<Rightarrow> string \<Rightarrow> bool" where
  "get_plugin_install_status m n = (version_map m n \<noteq> None)"

definition get_plugin_load_status :: "fs \<Rightarrow> string \<Rightarrow> bool" where
  "get_plugin_load_status fs n = os_path_exists (n @ ''.py'') fs"

text \<open>\<^verbatim>\<open>next(filter(lambda x: x.name == name, self.plugins), None)\<close>.\<close>

definition get_local_plugin :: "PluginManager \<Rightarrow> string \<Rightarrow> LocalPlugin option" where
  "get_local_plugin m n = find (\<lambda>x. name x = n) (plugins m)"

definition get_remote_plugin :: "PluginManager \<Rightarrow> string \<Rightarrow> RemotePlugin option" where
  "get_remote_plugin m n = find (\<lambda>x. name x = n) (remote_plugins m)"

definition remove_plugin ::
  "string \<Rightarrow> fs \<Rightarrow> PluginManager \<Rightarrow> py_error + (bool \<times> fs \<times> PluginManager)" where
  "remove_plugin n fs m =
     (case get_local_plugin m n of
        Some plugin \<Rightarrow>
          (case remove plugin fs of
             Inl e \<Rightarrow> Inl e
           | Inr fs1 \<Rightarrow>
               if version_map m n \<noteq> None then
                 (let m1 = m\<lparr>version_map := (version_map m)(n := None)\<rparr> in
                  case save_local_version_map fs1 m1 of
                    Inl e \<Rightarrow> Inl e
                  | Inr fs2 \<Rightarrow> Inr (True, fs2, m1))
               else Inr (True, fs1, m))
      | None \<Rightarrow> Inr (False, fs, m))"

definition enable_plugin ::
  "string \<Rightarrow> fs \<Rightarrow> PluginManager \<Rightarrow> py_error + (bool \<times> fs \<times> PluginManager)" where
  "enable_plugin n fs m =
     (case get_local_plugin m n of
        Some plugin \<Rightarrow>
          (case enable plugin fs of Inl e \<Rightarrow> Inl e | Inr (b, fs1) \<Rightarrow> Inr (b, fs1, m))
      | None \<Rightarrow> Inr (False, fs, m))"

definition disable_plugin ::
  "string \<Rightarrow> fs \<Rightarrow> PluginManager \<Rightarrow> py_error + (bool \<times> fs \<times> PluginManager)" where
  "disable_plugin n fs m =
     (case get_local_plugin m n of
        Some plugin \<Rightarrow>
          (case disable plugin fs of Inl e \<Rightarrow> Inl e | Inr (b, fs1) \<Rightarrow> Inr (b, fs1, m))
      | None \<Rightarrow> Inr (False, fs, m))"

text \<open>The loop of \<^verbatim>\<open>load_local_plugins\<close> over the directory listing, appending to \<open>acc\<close>.\<close>

fun scan_plugins :: "fs \<Rightarrow> PluginManager \<Rightarrow> string list \<Rightarrow> LocalPlugin list \<Rightarrow> LocalPlugin list" where
  "scan_plugins fs m [] acc = acc"
| "scan_plugins fs m (plugin # rest) acc =
     (if endswith plugin ''.py'' \<or> endswith plugin ''.py.disabled'' then
        (let plugin' = (if endswith plugin ''.py.disabled'' then drop_last 12 plugin
                        else drop_last 3 plugin)
         in scan_plugins fs m rest
              (acc @ [\<lparr>name = plugin',
                       status = get_plugin_load_status fs plugin',
                       installed = get_plugin_install_status m plugin',
                       version = get_local_version m plugin'\<rparr>]))
      else scan_plugins fs m rest acc)"

definition load_local_plugins ::
  "fs \<Rightarrow> PluginManager \<Rightarrow> py_error + (LocalPlugin list \<times> PluginManager)" where
  "load_local_plugins fs m =
     (case load_local_version_map fs m of
        Inl e \<Rightarrow> Inl e
      | Inr m1 \<Rightarrow>
          (let ps = scan_plugins fs m1 (os_listdir fs) [] in
           Inr (ps, m1\<lparr>plugins := ps\<rparr>)))"

text \<open>The loop of \<^verbatim>\<open>load_remote_plugins\<close> that fills \<^verbatim>\<open>remote_version_map\<close> in list order.\<close>

fun fill_remote_version_map :: "RemotePlugin list \<Rightarrow> ledger \<Rightarrow> ledger" where
  "fill_remote_version_map [] d = d"
| "fill_remote_version_map (plugin # rest) d =
     fill_remote_version_map rest (d(name plugin \<mapsto> version plugin))"

text \<open>
  \<^verbatim>\<open>load_remote_plugins\<close>, from the decoded \<^verbatim>\<open>list\<close> of the catalog on (the request, its
  decoding and the cache decorator are outside the model): each descriptor gets its
  \<^verbatim>\<open>status\<close> from the directory.
\<close>

definition load_remote_plugins ::
  "fs \<Rightarrow> RemotePlugin list \<Rightarrow> PluginManager \<Rightarrow> RemotePlugin list \<times> PluginManager" where
  "load_remote_plugins fs plugin_list m =
     (let ps = map (\<lambda>plugin. plugin\<lparr>status := get_plugin_load_status fs (name plugin)\<rparr>) plugin_list
      in (ps, m\<lparr>remote_plugins := ps,
                remote_version_map := fill_remote_version_map ps Map.empty\<rparr>))"

definition plugin_need_update :: "PluginManager \<Rightarrow> string \<Rightarrow> bool" where
  "plugin_need_update m n =
     (let local_version = get_local_version m n in
      if truthy local_version then
        (if local_version = Some 0 then False
         else
           (let remote_version = dict_get (remote_version_map m) n in
            if truthy remote_version then
              (case (local_version, remote_version) of
                 (Some l, Some r) \<Rightarrow> l < r
               | _ \<Rightarrow> False)
            else False))
      else False)"

definition install_remote_plugin ::
  "env \<Rightarrow> string \<Rightarrow> fs \<Rightarrow> PluginManager \<Rightarrow> py_error + (bool \<times> fs \<times> PluginManager)" where
  "install_remote_plugin ev n fs m =
     (case get_remote_plugin m n of
        Some plugin \<Rightarrow>
          (case install ev plugin fs of
             Inl e \<Rightarrow> Inl e
           | Inr (ok, fs1) \<Rightarrow>
               if ok then
                 (case set_local_version n (version plugin) fs1 m of
                    Inl e \<Rightarrow> Inl e
                  | Inr (fs2, m2) \<Rightarrow> Inr (True, fs2, m2))
               else Inr (False, fs1, m))
      | None \<Rightarrow> Inr (False, fs, m))"

definition update_remote_plugin ::
  "env \<Rightarrow> string \<Rightarrow> fs \<Rightarrow> PluginManager \<Rightarrow> py_error + (bool \<times> fs \<times> PluginManager)" where
  "update_remote_plugin ev n fs m =
     (if plugin_need_update m n then install_remote_plugin ev n fs m
      else Inr (False, fs, m))"

section \<open>Observations and example states\<close>

text \<open>
  The update policy as the specification words it: no update without a recorded local
  version or with a local version of zero; otherwise an update exactly when the local
  version is below the known remote version.
\<close>

definition needsUpdate_spec :: "PluginManager \<Rightarrow> string \<Rightarrow> bool" where
  "needsUpdate_spec m n =
     (case dict_get (version_map m) n of
        None \<Rightarrow> False
      | Some l \<Rightarrow>
          if l = 0 then False
          else (case dict_get (remote_version_map m) n of
                  None \<Rightarrow> False
                | Some r \<Rightarrow> l < r))"



definition file_pair :: "'a LocalPlugin_scheme \<Rightarrow> fs \<Rightarrow> node option \<times> node option" where
  "file_pair p fs = (map_of fs (normal_path p), map_of fs (disabled_path p))"

text \<open>\<^verbatim>\<open>b1 = p.enable(); b2 = p.disable()\<close>.\<close>

definition enable_then_disable ::
  "'a LocalPlugin_scheme \<Rightarrow> fs \<Rightarrow> py_error + (bool \<times> bool \<times> fs)" where
  "enable_then_disable p fs =
     (case enable p fs of
        Inl e \<Rightarrow> Inl e
      | Inr (b1, fs1) \<Rightarrow>
          (case disable p fs1 of
             Inl e \<Rightarrow> Inl e
           | Inr (b2, fs2) \<Rightarrow> Inr (b1, b2, fs2)))"

text \<open>Example states: a manager that knows one plugin \<open>a\<close> at given local and remote versions.\<close>

definition ex_versions :: "real \<Rightarrow> real \<Rightarrow> PluginManager" where
  "ex_versions l r = \<lparr>version_map = [''a'' \<mapsto> Some l], remote_version_map = [''a'' \<mapsto> Some r],
     plugins = [], remote_plugins = []\<rparr>"

text \<open>A catalog with the plugin \<open>bar\<close> at version 2, recorded locally at version 1.\<close>

definition ex_remote :: RemotePlugin where
  "ex_remote = \<lparr>name = ''bar'', status = False, installed = False, version = Some 2,
     plugin_section = ''chat'', maintainer = ''someone'', plugin_size = ''1 kb'',
     supported = True, des = ''a plugin''\<rparr>"

definition ex_manager :: PluginManager where
  "ex_manager = \<lparr>version_map = [''bar'' \<mapsto> Some 1], remote_version_map = [''bar'' \<mapsto> Some 2],
     plugins = [], remote_plugins = [ex_remote]\<rparr>"

text \<open>A network that answers every request with the given status code.\<close>

definition ex_env :: "int \<Rightarrow> env" where
  "ex_env code = \<lparr>GIT_SOURCE = ''https://example.org/'',
     client_get = (\<lambda>url. Inr \<lparr>status_code = code, resp_text = ''print(1)''\<rparr>)\<rparr>"

text \<open>A manager whose snapshot holds the local plugin \<open>foo\<close>, recorded at version 1.\<close>

definition ex_local :: LocalPlugin where
  "ex_local = \<lparr>name = ''foo'', status = True, installed = True, version = Some 1\<rparr>"

definition ex_local_manager :: PluginManager where
  "ex_local_manager = \<lparr>version_map = [''foo'' \<mapsto> Some 1], remote_version_map = Map.empty,
     plugins = [ex_local], remote_plugins = []\<rparr>"


section \<open>Paths and the directory\<close>

lemma py_not_version_json: "n @ ''.py'' \<noteq> ''version.json''"
proof
  assume "n @ ''.py'' = ''version.json''"
  then have "last (n @ ''.py'') = last ''version.json''" by (rule arg_cong)
  then show False by simp
qed

lemma disabled_not_version_json: "n @ ''.py.disabled'' \<noteq> ''version.json''"
proof
  assume "n @ ''.py.disabled'' = ''version.json''"
  then have "last (n @ ''.py.disabled'') = last ''version.json''" by (rule arg_cong)
  then show False by simp
qed

lemma normal_not_disabled: "normal_path p \<noteq> disabled_path p"
  by (simp add: normal_path_def disabled_path_def)

lemma os_remove_map_of:
  "os_remove path fs = Inr fs' \<Longrightarrow> map_of fs' = (map_of fs)(path := None)"
  by (auto simp: os_remove_def name_error_def NAME_MAX_def AList.delete_conv' split: option.splits node.splits)


lemma suppress_os_remove_map_of:
  "suppress_FileNotFoundError fs (os_remove path fs) = Inr fs' \<Longrightarrow>
   map_of fs' = (map_of fs)(path := None)"
  by (auto simp: suppress_FileNotFoundError_def os_remove_def name_error_def NAME_MAX_def AList.delete_conv'
           split: option.splits node.splits sum.splits if_splits)

lemma suppress_os_remove_name_error:
  "suppress_FileNotFoundError fs (os_remove path fs) = Inr fs' \<Longrightarrow> name_error path = None"
  by (cases "name_error path")
     (auto simp: suppress_FileNotFoundError_def os_remove_def name_error_def split: if_splits)

lemma suppress_os_remove_absent:
  "name_error path = None \<Longrightarrow> map_of fs path = None \<Longrightarrow>
   suppress_FileNotFoundError fs (os_remove path fs) = Inr fs"
  by (simp add: suppress_FileNotFoundError_def os_remove_def)

lemma open_write_map_of:
  "open_write path c fs = Inr fs' \<Longrightarrow> map_of fs' = (map_of fs)(path \<mapsto> File c)"
  by (auto simp: open_write_def AList.update_conv' split: option.splits node.splits)

lemma os_rename_map_of:
  "os_rename src dst fs = Inr fs' \<Longrightarrow>
   \<exists>x. map_of fs src = Some x \<and> map_of fs' = (map_of fs)(src := None, dst \<mapsto> x)"
  by (auto simp: os_rename_def AList.update_conv' AList.delete_conv'
           split: option.splits node.splits if_splits)

lemma os_rename_absent: "map_of fs src = None \<Longrightarrow> os_rename src dst fs = Inl FileNotFoundError"
  by (simp add: os_rename_def)

lemma os_rename_to_absent:
  "map_of fs src = Some x \<Longrightarrow> map_of fs dst = None \<Longrightarrow> \<exists>fs'. os_rename src dst fs = Inr fs'"
  by (cases x) (simp_all add: os_rename_def)

section \<open>The file operations of a plugin record\<close>

lemma remove_map_of:
  assumes "remove p fs = Inr fs'"
  shows "map_of fs' = (map_of fs)(normal_path p := None, disabled_path p := None)"
proof -
  from assms obtain fs1 where
    a: "suppress_FileNotFoundError fs (os_remove (normal_path p) fs) = Inr fs1" and
    b: "suppress_FileNotFoundError fs1 (os_remove (disabled_path p) fs1) = Inr fs'"
    by (auto simp: remove_def split: sum.splits)
  show ?thesis
    using suppress_os_remove_map_of [OF a] suppress_os_remove_map_of [OF b] by simp
qed

lemma remove_name_error:
  assumes "remove p fs = Inr fs'"
  shows "name_error (normal_path p) = None \<and> name_error (disabled_path p) = None"
proof -
  from assms obtain fs1 where
    a: "suppress_FileNotFoundError fs (os_remove (normal_path p) fs) = Inr fs1" and
    b: "suppress_FileNotFoundError fs1 (os_remove (disabled_path p) fs1) = Inr fs'"
    by (auto simp: remove_def split: sum.splits)
  show ?thesis
    using suppress_os_remove_name_error [OF a] suppress_os_remove_name_error [OF b] by simp
qed

lemma remove_absent:
  "name_error (normal_path p) = None \<Longrightarrow> name_error (disabled_path p) = None \<Longrightarrow>
   map_of fs (normal_path p) = None \<Longrightarrow> map_of fs (disabled_path p) = None \<Longrightarrow>
   remove p fs = Inr fs"
  by (simp add: remove_def suppress_os_remove_absent)


lemma install_True:
  assumes "install ev p fs = Inr (True, fs1)"
  shows "\<exists>html. client_get ev (GIT_SOURCE ev @ name p @ ''/main.py'') = Inr html \<and>
           status_code html = 200 \<and>
           map_of fs1 = (map_of fs)(normal_path p := None, disabled_path p := None,
                                    normal_path p \<mapsto> File (Bytes (resp_text html)))"
proof -
  from assms obtain html fs0 where
    g: "client_get ev (GIT_SOURCE ev @ name p @ ''/main.py'') = Inr html" and
    s: "status_code html = 200" and
    r: "remove p fs = Inr fs0" and
    w: "open_write (name p @ ''.py'') (Bytes (resp_text html)) fs0 = Inr fs1"
    by (auto simp: install_def split: sum.splits if_splits)
  from remove_map_of [OF r] open_write_map_of [OF w]
  have "map_of fs1 = (map_of fs)(normal_path p := None, disabled_path p := None,
                                 normal_path p \<mapsto> File (Bytes (resp_text html)))"
    by (simp add: normal_path_def)
  with g s show ?thesis by blast
qed

lemma install_False:
  "client_get ev (GIT_SOURCE ev @ name p @ ''/main.py'') = Inr html \<Longrightarrow>
   status_code html \<noteq> 200 \<Longrightarrow> install ev p fs = Inr (False, fs)"
  by (simp add: install_def)

section \<open>Lookups and the version ledger\<close>

lemma get_local_plugin_name: "get_local_plugin m n = Some p \<Longrightarrow> name p = n"
  by (auto simp: get_local_plugin_def find_Some_iff)

lemma get_remote_plugin_name: "get_remote_plugin m n = Some p \<Longrightarrow> name p = n"
  by (auto simp: get_remote_plugin_def find_Some_iff)

lemma get_local_plugin_None: "get_local_plugin m n = None \<longleftrightarrow> n \<notin> name ` set (plugins m)"
  by (auto simp: get_local_plugin_def find_None_iff)

lemma set_local_version_Inr:
  assumes "set_local_version n v fs m = Inr (fs', m')"
  shows "m' = m\<lparr>version_map := (version_map m)(n \<mapsto> v)\<rparr> \<and>
         map_of fs' = (map_of fs)(''version.json'' \<mapsto> File (Json (version_map m')))"
proof -
  from assms have m': "m' = m\<lparr>version_map := (version_map m)(n \<mapsto> v)\<rparr>"
    and w: "open_write ''version.json'' (Json (version_map m')) fs = Inr fs'"
    by (auto simp: set_local_version_def save_local_version_map_def json_dump_def Let_def
             split: sum.splits)
  from m' open_write_map_of [OF w] show ?thesis by simp
qed

lemma get_local_version_char:
  "get_local_version m n = Some l \<longleftrightarrow> version_map m n = Some (Some l) \<and> l \<noteq> 0"
  by (auto simp: get_local_version_def dict_get_def truthy_def Let_def split: option.splits)

lemma plugin_need_update_char:
  "plugin_need_update m n \<longleftrightarrow>
     (\<exists>l r. version_map m n = Some (Some l) \<and> l \<noteq> 0 \<and>
            remote_version_map m n = Some (Some r) \<and> r \<noteq> 0 \<and> l < r)"
  by (auto simp: plugin_need_update_def get_local_version_def dict_get_def truthy_def Let_def
           split: option.splits)

lemma ex_get_remote: "get_remote_plugin ex_manager ''bar'' = Some ex_remote"
  by (simp add: get_remote_plugin_def ex_manager_def ex_remote_def)

section \<open>The update policy\<close>

text \<open>
  C1, as stated, fails: with a recorded local version of \<open>-1\<close> and a cached remote version of
  \<open>0\<close>, the local version is non-zero and strictly less than the known remote version, so the
  stated policy asks for an update, and \<^verbatim>\<open>plugin_need_update\<close> returns false.
\<close>

theorem needsUpdate_counterexample:
  "needsUpdate_spec (ex_versions (-1) 0) ''a'' \<and> \<not> plugin_need_update (ex_versions (-1) 0) ''a''"
  by (simp add: needsUpdate_spec_def plugin_need_update_def get_local_version_def dict_get_def
      truthy_def ex_versions_def)

text \<open>
  C1, amended: \<^verbatim>\<open>plugin_need_update(name)\<close> is false when no local version is recorded for the
  name, and false when the recorded local version is exactly zero; otherwise it is false when
  the remote version is unknown, and else true if and only if the cached remote version is not
  zero and the local version is strictly less than it. Equal versions never yield true.
\<close>

theorem plugin_need_update_policy:
  "plugin_need_update m n =
     (case dict_get (version_map m) n of
        None \<Rightarrow> False
      | Some l \<Rightarrow>
          if l = 0 then False
          else (case dict_get (remote_version_map m) n of
                  None \<Rightarrow> False
                | Some r \<Rightarrow> r \<noteq> 0 \<and> l < r))"
  by (auto simp: plugin_need_update_def get_local_version_def truthy_def Let_def
           split: option.splits)

text \<open>
  The amended policy of C1 at four states: local 1 below remote 2 (update), equal versions,
  a local version of zero, and a remote version of zero (no update).
\<close>

theorem plugin_need_update_policy_witness:
  "plugin_need_update (ex_versions 1 2) ''a'' \<and> \<not> plugin_need_update (ex_versions 2 2) ''a'' \<and>
   \<not> plugin_need_update (ex_versions 0 2) ''a'' \<and> \<not> plugin_need_update (ex_versions (-1) 0) ''a''"
  using plugin_need_update_policy [of "ex_versions 1 2" "''a''"]
    plugin_need_update_policy [of "ex_versions 2 2" "''a''"]
    plugin_need_update_policy [of "ex_versions 0 2" "''a''"]
    plugin_need_update_policy [of "ex_versions (-1) 0" "''a''"]
  by (simp add: dict_get_def ex_versions_def)

text \<open>
  C10: when the cached remote version of a name is exactly zero, \<^verbatim>\<open>plugin_need_update\<close>
  returns false whatever the recorded local version is, which is also its answer when the
  remote version of the name is unknown.
\<close>

theorem remote_zero_no_update:
  assumes "remote_version_map m n = Some (Some 0)"
  shows "\<not> plugin_need_update m n \<and>
         plugin_need_update m n =
           plugin_need_update (m\<lparr>remote_version_map := (remote_version_map m)(n := None)\<rparr>) n"
  using assms by (simp add: plugin_need_update_char)

text \<open>C10 at a remote version of zero and a recorded local version of \<open>-1\<close>.\<close>

theorem remote_zero_no_update_witness:
  "remote_version_map (ex_versions (-1) 0) ''a'' = Some (Some 0) \<and>
   version_map (ex_versions (-1) 0) ''a'' = Some (Some (-1)) \<and>
   \<not> plugin_need_update (ex_versions (-1) 0) ''a''"
proof -
  have h: "remote_version_map (ex_versions (-1) 0) ''a'' = Some (Some 0)"
    by (simp add: ex_versions_def)
  from remote_zero_no_update [OF h] h show ?thesis by (simp add: ex_versions_def)
qed

text \<open>
  C3 does not hold of the code: for a ledger entry that holds exactly zero (so that the name
  counts as installed), \<^verbatim>\<open>get_local_version\<close> returns \<^verbatim>\<open>None\<close>, not zero, because
  \<^verbatim>\<open>float(data) if data else None\<close> takes the falsy zero for a missing value.
\<close>

theorem get_local_version_stored_zero:
  "version_map (ex_versions 0 2) ''a'' = Some (Some 0) \<and>
   get_plugin_install_status (ex_versions 0 2) ''a'' \<and>
   get_local_version (ex_versions 0 2) ''a'' = None"
  by (simp add: get_local_version_def get_plugin_install_status_def dict_get_def truthy_def
      ex_versions_def)

section \<open>Installing from the catalog\<close>

text \<open>
  C2: for a name present in the remote catalog, if \<^verbatim>\<open>install_remote_plugin(name)\<close> returns
  true, then afterwards the name is installed (it has a ledger entry), its active file exists,
  and the ledger records the version that the catalog entry of the name had when the
  installation started; the ledger file holds the same map.
\<close>

theorem install_remote_plugin_success:
  assumes cat: "get_remote_plugin m n = Some p"
    and ok: "install_remote_plugin ev n fs m = Inr (True, fs', m')"
  shows "get_plugin_install_status m' n \<and> get_plugin_load_status fs' n \<and>
         version_map m' n = Some (version p) \<and>
         map_of fs' ''version.json'' = Some (File (Json (version_map m')))"
proof -
  from ok cat obtain fs1 where
    inst: "install ev p fs = Inr (True, fs1)" and
    setv: "set_local_version n (version p) fs1 m = Inr (fs', m')"
    by (auto simp: install_remote_plugin_def split: sum.splits if_splits prod.splits)
  have nm: "name p = n" using cat by (rule get_remote_plugin_name)
  from install_True [OF inst] nm have active: "map_of fs1 (n @ ''.py'') \<noteq> None"
    by (auto simp: normal_path_def)
  from set_local_version_Inr [OF setv] have
    m': "m' = m\<lparr>version_map := (version_map m)(n \<mapsto> version p)\<rparr>" and
    fs': "map_of fs' = (map_of fs1)(''version.json'' \<mapsto> File (Json (version_map m')))"
    by simp_all
  have "get_plugin_install_status m' n" by (simp add: m' get_plugin_install_status_def)
  moreover have "get_plugin_load_status fs' n"
    using active by (simp add: get_plugin_load_status_def os_path_exists_def fs' py_not_version_json)
  moreover have "version_map m' n = Some (version p)" by (simp add: m')
  moreover have "map_of fs' ''version.json'' = Some (File (Json (version_map m')))"
    by (simp add: fs')
  ultimately show ?thesis by blast
qed

text \<open>
  C2 at a successful installation of \<open>bar\<close> (catalog version 2) over a disabled older copy:
  the disabled file is gone, the active file holds the download, the ledger says 2.
\<close>

theorem install_remote_plugin_success_witness:
  "get_remote_plugin ex_manager ''bar'' = Some ex_remote \<and>
   install_remote_plugin (ex_env 200) ''bar'' [(''bar.py.disabled'', File (Bytes ''old''))] ex_manager
     = Inr (True,
            [(''bar.py'', File (Bytes ''print(1)'')),
             (''version.json'', File (Json [''bar'' \<mapsto> Some 2]))],
            ex_manager\<lparr>version_map := [''bar'' \<mapsto> Some 2]\<rparr>) \<and>
   get_plugin_install_status (ex_manager\<lparr>version_map := [''bar'' \<mapsto> Some 2]\<rparr>) ''bar'' \<and>
   get_plugin_load_status
     [(''bar.py'', File (Bytes ''print(1)'')),
      (''version.json'', File (Json [''bar'' \<mapsto> Some 2]))] ''bar'' \<and>
   version_map (ex_manager\<lparr>version_map := [''bar'' \<mapsto> Some 2]\<rparr>) ''bar'' = Some (Some 2)"
proof -
  have h: "install_remote_plugin (ex_env 200) ''bar'' [(''bar.py.disabled'', File (Bytes ''old''))]
             ex_manager
           = Inr (True,
                  [(''bar.py'', File (Bytes ''print(1)'')),
                   (''version.json'', File (Json [''bar'' \<mapsto> Some 2]))],
                  ex_manager\<lparr>version_map := [''bar'' \<mapsto> Some 2]\<rparr>)"
    by (simp add: install_remote_plugin_def get_remote_plugin_def install_def ex_env_def remove_def
        suppress_FileNotFoundError_def os_remove_def name_error_def NAME_MAX_def open_write_def set_local_version_def
        save_local_version_map_def json_dump_def normal_path_def disabled_path_def ex_remote_def
        ex_manager_def)
  from install_remote_plugin_success [OF ex_get_remote h] ex_get_remote h
  show ?thesis by (simp add: ex_remote_def)
qed

text \<open>
  The update scenario of the specification: the catalog has \<open>bar\<close> at 2, the ledger has it
  at 1; an update is needed, and after \<^verbatim>\<open>update_remote_plugin\<close> the ledger has it at 2.
\<close>

lemma update_remote_plugin_scenario:
  "plugin_need_update ex_manager ''bar'' \<and>
   update_remote_plugin (ex_env 200) ''bar'' [(''bar.py'', File (Bytes ''old''))] ex_manager
     = Inr (True,
            [(''bar.py'', File (Bytes ''print(1)'')),
             (''version.json'', File (Json [''bar'' \<mapsto> Some 2]))],
            ex_manager\<lparr>version_map := [''bar'' \<mapsto> Some 2]\<rparr>)"
  by (simp add: update_remote_plugin_def plugin_need_update_char install_remote_plugin_def
      get_remote_plugin_def install_def ex_env_def remove_def suppress_FileNotFoundError_def
      os_remove_def name_error_def NAME_MAX_def open_write_def set_local_version_def save_local_version_map_def
      json_dump_def normal_path_def disabled_path_def ex_remote_def ex_manager_def)

text \<open>
  C7: if the download of the plugin source answers with a status other than 200,
  \<^verbatim>\<open>install_remote_plugin(name)\<close> returns false and leaves the plugin directory, the ledger
  file in it and the manager (version ledger included) as they were; this holds for every
  name, in the catalog or not.
\<close>

theorem install_remote_plugin_download_failed:
  assumes "client_get ev (GIT_SOURCE ev @ n @ ''/main.py'') = Inr html"
    and "status_code html \<noteq> 200"
  shows "install_remote_plugin ev n fs m = Inr (False, fs, m)"
proof (cases "get_remote_plugin m n")
  case None
  then show ?thesis by (simp add: install_remote_plugin_def)
next
  case (Some p)
  then have "name p = n" by (rule get_remote_plugin_name)
  with assms have "install ev p fs = Inr (False, fs)" by (simp add: install_False)
  with Some show ?thesis by (simp add: install_remote_plugin_def)
qed

text \<open>C7 at a status of 404 for the catalog plugin \<open>bar\<close>, whose active file is kept.\<close>

theorem install_remote_plugin_download_failed_witness:
  "get_remote_plugin ex_manager ''bar'' = Some ex_remote \<and>
   client_get (ex_env 404) (GIT_SOURCE (ex_env 404) @ ''bar'' @ ''/main.py'')
     = Inr \<lparr>status_code = 404, resp_text = ''print(1)''\<rparr> \<and>
   install_remote_plugin (ex_env 404) ''bar'' [(''bar.py'', File (Bytes ''old''))] ex_manager
     = Inr (False, [(''bar.py'', File (Bytes ''old''))], ex_manager)"
proof -
  have g: "client_get (ex_env 404) (GIT_SOURCE (ex_env 404) @ ''bar'' @ ''/main.py'')
            = Inr \<lparr>status_code = 404, resp_text = ''print(1)''\<rparr>"
    by (simp add: ex_env_def)
  have s: "status_code \<lparr>status_code = 404, resp_text = ''print(1)''\<rparr> \<noteq> 200" by simp
  from install_remote_plugin_download_failed [OF g s] g ex_get_remote show ?thesis by simp
qed

section \<open>Commands resolve names against the snapshot\<close>

text \<open>
  C9: \<^verbatim>\<open>enable_plugin\<close>, \<^verbatim>\<open>disable_plugin\<close> and \<^verbatim>\<open>remove_plugin\<close> look the name up in
  \<^verbatim>\<open>self.plugins\<close> only, the list that the last \<^verbatim>\<open>load_local_plugins\<close> stored: for a name
  that no record of the list carries they return false and change neither the plugin
  directory nor the manager, whatever files the directory holds.
\<close>

theorem unknown_name_no_change:
  assumes "n \<notin> name ` set (plugins m)"
  shows "enable_plugin n fs m = Inr (False, fs, m) \<and>
         disable_plugin n fs m = Inr (False, fs, m) \<and>
         remove_plugin n fs m = Inr (False, fs, m)"
proof -
  from assms have "get_local_plugin m n = None" by (simp add: get_local_plugin_None)
  then show ?thesis by (simp add: enable_plugin_def disable_plugin_def remove_plugin_def)
qed

text \<open>C9 at an empty snapshot while the active file of \<open>foo\<close> exists in the directory.\<close>

theorem unknown_name_no_change_witness:
  "''foo'' \<notin> name ` set (plugins (ex_versions 1 2)) \<and>
   get_plugin_load_status [(''foo.py'', File (Bytes ''x''))] ''foo'' \<and>
   enable_plugin ''foo'' [(''foo.py'', File (Bytes ''x''))] (ex_versions 1 2)
     = Inr (False, [(''foo.py'', File (Bytes ''x''))], ex_versions 1 2) \<and>
   disable_plugin ''foo'' [(''foo.py'', File (Bytes ''x''))] (ex_versions 1 2)
     = Inr (False, [(''foo.py'', File (Bytes ''x''))], ex_versions 1 2) \<and>
   remove_plugin ''foo'' [(''foo.py'', File (Bytes ''x''))] (ex_versions 1 2)
     = Inr (False, [(''foo.py'', File (Bytes ''x''))], ex_versions 1 2)"
proof -
  have h: "''foo'' \<notin> name ` set (plugins (ex_versions 1 2))" by (simp add: ex_versions_def)
  have l: "get_plugin_load_status [(''foo.py'', File (Bytes ''x''))] ''foo''"
    by (simp add: get_plugin_load_status_def os_path_exists_def)
  from unknown_name_no_change [OF h] h l show ?thesis by simp
qed

section \<open>Removing a plugin\<close>

lemma save_local_version_map_Inr:
  "save_local_version_map fs m = Inr fs' \<Longrightarrow>
   map_of fs' = (map_of fs)(''version.json'' \<mapsto> File (Json (version_map m)))"
  by (auto simp: save_local_version_map_def json_dump_def dest: open_write_map_of)

lemma remove_plugin_True:
  assumes "remove_plugin n fs m = Inr (True, fs', m')"
  shows "map_of fs' (n @ ''.py'') = None \<and> map_of fs' (n @ ''.py.disabled'') = None \<and>
         version_map m' n = None \<and> plugins m' = plugins m \<and>
         name_error (n @ ''.py'') = None \<and> name_error (n @ ''.py.disabled'') = None \<and>
         (\<exists>p. get_local_plugin m n = Some p)"
proof -
  from assms obtain p where p: "get_local_plugin m n = Some p"
    by (auto simp: remove_plugin_def split: option.splits)
  then have nm: "name p = n" by (rule get_local_plugin_name)
  from assms p obtain fs1 where r: "remove p fs = Inr fs1"
    by (auto simp: remove_plugin_def split: sum.splits)
  from remove_map_of [OF r] nm have
    gone1: "map_of fs1 (n @ ''.py'') = None" "map_of fs1 (n @ ''.py.disabled'') = None"
    by (auto simp: normal_path_def disabled_path_def)
  from remove_name_error [OF r] nm have
    names: "name_error (n @ ''.py'') = None \<and> name_error (n @ ''.py.disabled'') = None"
    by (simp add: normal_path_def disabled_path_def)
  have "map_of fs' (n @ ''.py'') = None \<and> map_of fs' (n @ ''.py.disabled'') = None \<and>
        version_map m' n = None \<and> plugins m' = plugins m"
    using assms p r gone1
    by (auto simp: remove_plugin_def Let_def py_not_version_json disabled_not_version_json
             split: if_splits sum.splits dest!: save_local_version_map_Inr)
  with p names show ?thesis by blast
qed

text \<open>
  C4, as stated, fails: \<^verbatim>\<open>remove_plugin\<close> does not take the record out of \<^verbatim>\<open>self.plugins\<close>,
  so a second call right after a successful one finds the record again and returns true,
  not false. Here \<open>foo\<close> has an active file and a ledger entry; the first call deletes both
  and rewrites the ledger file, the second call returns true on the resulting state.
\<close>

theorem remove_plugin_counterexample:
  "remove_plugin ''foo'' [(''foo.py'', File (Bytes ''x''))] ex_local_manager
     = Inr (True, [(''version.json'', File (Json Map.empty))],
            ex_local_manager\<lparr>version_map := Map.empty\<rparr>) \<and>
   remove_plugin ''foo'' [(''version.json'', File (Json Map.empty))]
       (ex_local_manager\<lparr>version_map := Map.empty\<rparr>)
     = Inr (True, [(''version.json'', File (Json Map.empty))],
            ex_local_manager\<lparr>version_map := Map.empty\<rparr>)"
  by (simp add: remove_plugin_def get_local_plugin_def remove_def suppress_FileNotFoundError_def
      os_remove_def name_error_def NAME_MAX_def open_write_def save_local_version_map_def json_dump_def normal_path_def
      disabled_path_def ex_local_def ex_local_manager_def)

text \<open>
  C4, amended: for every name with a local record, after \<^verbatim>\<open>remove_plugin(name)\<close> returns true,
  neither the active file nor the disabled file nor a ledger entry exists for the name, and a
  second \<^verbatim>\<open>remove_plugin(name)\<close> with no operation in between returns true again without
  raising and changes nothing (the snapshot still lists the record).
\<close>

theorem remove_plugin_twice:
  assumes "remove_plugin n fs m = Inr (True, fs', m')"
  shows "map_of fs' (n @ ''.py'') = None \<and> map_of fs' (n @ ''.py.disabled'') = None \<and>
         version_map m' n = None \<and>
         remove_plugin n fs' m' = Inr (True, fs', m')"
proof -
  from remove_plugin_True [OF assms] obtain p where
    gone: "map_of fs' (n @ ''.py'') = None" "map_of fs' (n @ ''.py.disabled'') = None" and
    led: "version_map m' n = None" and
    snap: "plugins m' = plugins m" and
    names: "name_error (n @ ''.py'') = None" "name_error (n @ ''.py.disabled'') = None" and
    p: "get_local_plugin m n = Some p"
    by blast
  from p have nm: "name p = n" by (rule get_local_plugin_name)
  from snap p have p': "get_local_plugin m' n = Some p" by (simp add: get_local_plugin_def)
  from gone names nm have "remove p fs' = Inr fs'"
    by (intro remove_absent) (simp_all add: normal_path_def disabled_path_def)
  with p' led have "remove_plugin n fs' m' = Inr (True, fs', m')"
    by (simp add: remove_plugin_def)
  with gone led show ?thesis by blast
qed

text \<open>C4, amended, at the removal of \<open>foo\<close>, present as a disabled file with a ledger entry.\<close>

theorem remove_plugin_twice_witness:
  "remove_plugin ''foo'' [(''foo.py.disabled'', File (Bytes ''x''))] ex_local_manager
     = Inr (True, [(''version.json'', File (Json Map.empty))],
            ex_local_manager\<lparr>version_map := Map.empty\<rparr>) \<and>
   map_of [(''version.json'', File (Json Map.empty))] ''foo.py'' = None \<and>
   map_of [(''version.json'', File (Json Map.empty))] ''foo.py.disabled'' = None \<and>
   version_map (ex_local_manager\<lparr>version_map := Map.empty\<rparr>) ''foo'' = None \<and>
   remove_plugin ''foo'' [(''version.json'', File (Json Map.empty))]
       (ex_local_manager\<lparr>version_map := Map.empty\<rparr>)
     = Inr (True, [(''version.json'', File (Json Map.empty))],
            ex_local_manager\<lparr>version_map := Map.empty\<rparr>)"
proof -
  have h: "remove_plugin ''foo'' [(''foo.py.disabled'', File (Bytes ''x''))] ex_local_manager
     = Inr (True, [(''version.json'', File (Json Map.empty))],
            ex_local_manager\<lparr>version_map := Map.empty\<rparr>)"
    by (simp add: remove_plugin_def get_local_plugin_def remove_def suppress_FileNotFoundError_def
      os_remove_def name_error_def NAME_MAX_def open_write_def save_local_version_map_def json_dump_def normal_path_def
      disabled_path_def ex_local_def ex_local_manager_def)
  from remove_plugin_twice [OF h] h show ?thesis by simp
qed

section \<open>Listing the local plugins\<close>

lemma endswith_drop_last: "endswith s suf \<Longrightarrow> k = length suf \<Longrightarrow> drop_last k s @ suf = s"
  unfolding endswith_def drop_last_def by (metis append_take_drop_id)

lemma scan_plugins_name:
  "p \<in> set (scan_plugins fs m l acc) \<Longrightarrow>
   p \<in> set acc \<or> name p @ ''.py'' \<in> set l \<or> name p @ ''.py.disabled'' \<in> set l"
proof (induction l arbitrary: acc)
  case Nil
  then show ?case by simp
next
  case (Cons entry rest)
  show ?case
  proof (cases "endswith entry ''.py.disabled''")
    case True
    have e: "drop_last 12 entry @ ''.py.disabled'' = entry"
      by (rule endswith_drop_last [OF True]) simp
    from Cons.prems True Cons.IH show ?thesis
      using e by (fastforce simp: Let_def)
  next
    case False
    show ?thesis
    proof (cases "endswith entry ''.py''")
      case True
      have e: "drop_last 3 entry @ ''.py'' = entry"
        by (rule endswith_drop_last [OF True]) simp
      from Cons.prems True False Cons.IH show ?thesis
        using e by (fastforce simp: Let_def)
    next
      case no: False
      from Cons.prems False no Cons.IH show ?thesis by fastforce
    qed
  qed
qed

lemma load_local_plugins_Inr:
  "load_local_plugins fs m = Inr (ps, m') \<Longrightarrow>
   plugins m' = ps \<and> (\<forall>p \<in> set ps. os_path_exists (name p @ ''.py'') fs \<or>
                                      os_path_exists (name p @ ''.py.disabled'') fs)"
proof -
  assume a: "load_local_plugins fs m = Inr (ps, m')"
  then obtain m1 where ps: "ps = scan_plugins fs m1 (os_listdir fs) []" and m': "plugins m' = ps"
    by (auto simp: load_local_plugins_def Let_def split: sum.splits)
  have "\<forall>p \<in> set ps. os_path_exists (name p @ ''.py'') fs \<or>
                      os_path_exists (name p @ ''.py.disabled'') fs"
  proof
    fix p assume "p \<in> set ps"
    with ps have "name p @ ''.py'' \<in> set (os_listdir fs) \<or>
                  name p @ ''.py.disabled'' \<in> set (os_listdir fs)"
      using scan_plugins_name [of p fs m1 "os_listdir fs" "[]"] by simp
    then show "os_path_exists (name p @ ''.py'') fs \<or> os_path_exists (name p @ ''.py.disabled'') fs"
      by (auto simp: os_listdir_def os_path_exists_def map_of_eq_None_iff)
  qed
  with m' show ?thesis by simp
qed

text \<open>
  Once \<^verbatim>\<open>load_local_plugins\<close> has rebuilt the snapshot from the directory, a removed name is
  unknown and \<^verbatim>\<open>remove_plugin\<close> returns false for it.
\<close>

lemma remove_plugin_after_reload:
  assumes "remove_plugin n fs m = Inr (True, fs', m')"
    and "load_local_plugins fs' m' = Inr (ps, m'')"
  shows "remove_plugin n fs' m'' = Inr (False, fs', m'')"
proof -
  from remove_plugin_True [OF assms(1)] have
    gone: "\<not> os_path_exists (n @ ''.py'') fs'" "\<not> os_path_exists (n @ ''.py.disabled'') fs'"
    by (simp_all add: os_path_exists_def)
  from load_local_plugins_Inr [OF assms(2)] gone have "n \<notin> name ` set (plugins m'')"
    by auto
  then have "get_local_plugin m'' n = None" by (simp add: get_local_plugin_None)
  then show ?thesis by (simp add: remove_plugin_def)
qed

text \<open>
  C5: with exactly the files \<^verbatim>\<open>foo.py\<close> and \<^verbatim>\<open>bar.py.disabled\<close> in the plugin directory and
  the ledger \<open>{bar: 1.0}\<close>, \<^verbatim>\<open>load_local_plugins\<close> returns exactly two records, \<open>foo\<close> with
  \<open>status = True\<close>, \<open>installed = False\<close> and no version, and \<open>bar\<close> with
  \<open>status = False\<close>, \<open>installed = True\<close> and version \<open>1.0\<close>, in the order in which the
  directory lists the two files, and stores the list as the snapshot.
\<close>

theorem load_local_plugins_scenario:
  "load_local_plugins
     [(''foo.py'', File (Bytes c1)), (''bar.py.disabled'', File (Bytes c2))]
     \<lparr>version_map = [''bar'' \<mapsto> Some 1], remote_version_map = rv, plugins = ps,
        remote_plugins = rps\<rparr>
   = Inr ([\<lparr>name = ''foo'', status = True, installed = False, version = None\<rparr>,
           \<lparr>name = ''bar'', status = False, installed = True, version = Some 1\<rparr>],
          \<lparr>version_map = [''bar'' \<mapsto> Some 1], remote_version_map = rv,
             plugins = [\<lparr>name = ''foo'', status = True, installed = False, version = None\<rparr>,
                        \<lparr>name = ''bar'', status = False, installed = True, version = Some 1\<rparr>],
             remote_plugins = rps\<rparr>) \<and>
   load_local_plugins
     [(''bar.py.disabled'', File (Bytes c2)), (''foo.py'', File (Bytes c1))]
     \<lparr>version_map = [''bar'' \<mapsto> Some 1], remote_version_map = rv, plugins = ps,
        remote_plugins = rps\<rparr>
   = Inr ([\<lparr>name = ''bar'', status = False, installed = True, version = Some 1\<rparr>,
           \<lparr>name = ''foo'', status = True, installed = False, version = None\<rparr>],
          \<lparr>version_map = [''bar'' \<mapsto> Some 1], remote_version_map = rv,
             plugins = [\<lparr>name = ''bar'', status = False, installed = True, version = Some 1\<rparr>,
                        \<lparr>name = ''foo'', status = True, installed = False, version = None\<rparr>],
             remote_plugins = rps\<rparr>)"
  by (simp add: load_local_plugins_def load_local_version_map_def os_path_exists_def
      os_listdir_def endswith_def drop_last_def get_plugin_load_status_def
      get_plugin_install_status_def get_local_version_def dict_get_def truthy_def Let_def)

text \<open>The same listing when the ledger is read from \<^verbatim>\<open>version.json\<close> in the directory.\<close>

lemma load_local_plugins_ledger_file:
  "load_local_plugins
     [(''foo.py'', File (Bytes c1)), (''version.json'', File (Json [''bar'' \<mapsto> Some 1])),
      (''bar.py.disabled'', File (Bytes c2))]
     \<lparr>version_map = Map.empty, remote_version_map = rv, plugins = ps, remote_plugins = rps\<rparr>
   = Inr ([\<lparr>name = ''foo'', status = True, installed = False, version = None\<rparr>,
           \<lparr>name = ''bar'', status = False, installed = True, version = Some 1\<rparr>],
          \<lparr>version_map = [''bar'' \<mapsto> Some 1], remote_version_map = rv,
             plugins = [\<lparr>name = ''foo'', status = True, installed = False, version = None\<rparr>,
                        \<lparr>name = ''bar'', status = False, installed = True, version = Some 1\<rparr>],
             remote_plugins = rps\<rparr>)"
  by (simp add: load_local_plugins_def load_local_version_map_def os_path_exists_def
      open_read_def json_load_def os_listdir_def endswith_def drop_last_def
      get_plugin_load_status_def get_plugin_install_status_def get_local_version_def
      dict_get_def truthy_def Let_def)

section \<open>The catalog versions\<close>

lemma fill_remote_version_map_other:
  "k \<notin> name ` set ps \<Longrightarrow> fill_remote_version_map ps d k = d k"
  by (induction ps arbitrary: d) auto

lemma fill_remote_version_map_distinct:
  "distinct (map name ps) \<Longrightarrow> p \<in> set ps \<Longrightarrow>
   fill_remote_version_map ps d (name p) = Some (version p)"
proof (induction ps arbitrary: d)
  case Nil
  then show ?case by simp
next
  case (Cons q qs)
  show ?case
  proof (cases "p = q")
    case True
    with Cons.prems have "name q \<notin> name ` set qs" by auto
    with True show ?thesis by (simp add: fill_remote_version_map_other)
  next
    case False
    with Cons.prems Cons.IH show ?thesis by simp
  qed
qed

lemma load_remote_plugins_version:
  assumes "distinct (map name plugin_list)" and "p \<in> set plugin_list"
    and "load_remote_plugins fs plugin_list m = (ps, m')"
  shows "remote_version_map m' (name p) = Some (version p)"
proof -
  let ?st = "\<lambda>plugin::RemotePlugin. plugin\<lparr>status := get_plugin_load_status fs (name plugin)\<rparr>"
  have ps: "ps = map ?st plugin_list"
    and rv: "remote_version_map m' = fill_remote_version_map ps Map.empty"
    using assms(3) by (auto simp: load_remote_plugins_def Let_def)
  have d: "distinct (map name ps)" using assms(1) by (simp add: ps comp_def)
  have "?st p \<in> set ps" using assms(2) by (simp add: ps)
  from fill_remote_version_map_distinct [OF d this] show ?thesis by (simp add: rv)
qed

section \<open>Enabling and disabling\<close>

text \<open>
  C6, as stated, fails: when only the active file exists, \<^verbatim>\<open>enable\<close> fails (there is no
  disabled file to rename) and the following \<^verbatim>\<open>disable\<close> succeeds, so the pair ends with
  the disabled file only.
\<close>

theorem enable_then_disable_counterexample:
  "file_pair ex_local [(''foo.py'', File (Bytes ''x''))] = (Some (File (Bytes ''x'')), None) \<and>
   enable_then_disable ex_local [(''foo.py'', File (Bytes ''x''))]
     = Inr (False, True, [(''foo.py.disabled'', File (Bytes ''x''))]) \<and>
   file_pair ex_local [(''foo.py.disabled'', File (Bytes ''x''))] = (None, Some (File (Bytes ''x'')))"
  by (simp add: file_pair_def enable_then_disable_def enable_def disable_def os_rename_def
      normal_path_def disabled_path_def ex_local_def)

text \<open>
  C6, amended: for every name and every initial state in which the active file does not
  exist, \<^verbatim>\<open>enable\<close> followed by \<^verbatim>\<open>disable\<close> leaves the active/disabled pair as it was;
  both calls succeed when the disabled file exists and both fail when it does not.
\<close>

theorem enable_then_disable_round_trip:
  assumes "map_of fs (normal_path p) = None"
  shows "\<exists>b fs2. enable_then_disable p fs = Inr (b, b, fs2) \<and>
           b = (map_of fs (disabled_path p) \<noteq> None) \<and>
           file_pair p fs2 = file_pair p fs"
proof (cases "map_of fs (disabled_path p)")
  case None
  then have "enable p fs = Inr (False, fs)" by (simp add: enable_def os_rename_absent)
  moreover from assms have "disable p fs = Inr (False, fs)"
    by (simp add: disable_def os_rename_absent)
  ultimately have "enable_then_disable p fs = Inr (False, False, fs)"
    by (simp add: enable_then_disable_def)
  with None show ?thesis by (intro exI [of _ False] exI [of _ fs]) simp
next
  case (Some x)
  from os_rename_to_absent [OF Some assms] obtain fs1 where
    r1: "os_rename (disabled_path p) (normal_path p) fs = Inr fs1" by blast
  from os_rename_map_of [OF r1] Some have
    m1: "map_of fs1 = (map_of fs)(disabled_path p := None, normal_path p \<mapsto> x)" by simp
  then have src: "map_of fs1 (normal_path p) = Some x"
    and dst: "map_of fs1 (disabled_path p) = None"
    using normal_not_disabled [of p] by auto
  from os_rename_to_absent [OF src dst] obtain fs2 where
    r2: "os_rename (normal_path p) (disabled_path p) fs1 = Inr fs2" by blast
  from os_rename_map_of [OF r2] src have
    m2: "map_of fs2 = (map_of fs1)(normal_path p := None, disabled_path p \<mapsto> x)" by simp
  have "enable_then_disable p fs = Inr (True, True, fs2)"
    using r1 r2 by (simp add: enable_then_disable_def enable_def disable_def)
  moreover have "file_pair p fs2 = file_pair p fs"
    using m2 assms Some normal_not_disabled [of p] by (auto simp: file_pair_def)
  ultimately show ?thesis using Some by (intro exI [of _ True] exI [of _ fs2]) simp
qed

text \<open>C6, amended, at a plugin \<open>foo\<close> that is present as a disabled file only.\<close>

theorem enable_then_disable_round_trip_witness:
  "map_of [(''foo.py.disabled'', File (Bytes ''x''))] (normal_path ex_local) = None \<and>
   enable_then_disable ex_local [(''foo.py.disabled'', File (Bytes ''x''))]
     = Inr (True, True, [(''foo.py.disabled'', File (Bytes ''x''))]) \<and>
   file_pair ex_local [(''foo.py.disabled'', File (Bytes ''x''))] = (None, Some (File (Bytes ''x'')))"
proof -
  have h: "map_of [(''foo.py.disabled'', File (Bytes ''x''))] (normal_path ex_local) = None"
    by (simp add: normal_path_def ex_local_def)
  have e: "enable_then_disable ex_local [(''foo.py.disabled'', File (Bytes ''x''))]
     = Inr (True, True, [(''foo.py.disabled'', File (Bytes ''x''))])"
    by (simp add: enable_then_disable_def enable_def disable_def os_rename_def
      normal_path_def disabled_path_def ex_local_def)
  from enable_then_disable_round_trip [OF h] h e show ?thesis
    by (simp add: file_pair_def normal_path_def disabled_path_def ex_local_def)
qed

section \<open>What the file gateway raises\<close>










end
